theory Spec2Isabelle
  imports Main "HOL-Library.Sublist"
begin

section \<open>The watchdog of near-lake-supervisor (main.go)\<close>

text \<open>
  The program polls the indexer's block height on a ticker and restarts the indexer's
  container when the height stops increasing. Everything the loop reads from the outside
  world (the outcome of a query, the clock, the outcome of \<^verbatim>\<open>docker restart\<close>) is an
  explicit observation handed to the model; everything it does to the outside world is
  recorded in a list of effects.
\<close>

subsection \<open>Configuration and monitor state\<close>

text \<open>
  \<^verbatim>\<open>type Config struct\<close>. A \<^verbatim>\<open>time.Duration\<close> is a signed count of nanoseconds.
\<close>

record Config =
  IndexerURL :: string
  QueryInterval :: int
  StallTimeout :: int
  RestartSleep :: int
  ContainerName :: string
  MetricName :: string

text \<open>
  The three local variables of \<^verbatim>\<open>main\<close> that the loop mutates. A \<^verbatim>\<open>time.Time\<close> taken
  with \<^verbatim>\<open>time.Now()\<close> carries a monotonic clock reading, and \<^verbatim>\<open>time.Since\<close> subtracts
  monotonic readings; a point in time is that reading, in nanoseconds.
\<close>

record monitor =
  lastBlockHeight :: int
  lastProgressTime :: int
  isRestarting :: bool

text \<open>
  \<^verbatim>\<open>time.Since(t)\<close> at clock reading \<open>now\<close>. Both readings are non-negative 64-bit
  nanosecond counts of one monotonic clock, so the subtraction cannot leave the range of
  a \<^verbatim>\<open>time.Duration\<close>.
\<close>

definition Since :: "int \<Rightarrow> int \<Rightarrow> int" where
  "Since now t = now - t"

subsection \<open>Results of the collaborators\<close>

text \<open>The four \<^verbatim>\<open>fmt.Errorf\<close> returns of \<^verbatim>\<open>queryBlockHeightText\<close>.\<close>

datatype fetch_error =
    FetchMetricsFailed
  | MetricsStatus nat
  | ReadBodyFailed
  | MetricNotFound string

text \<open>
  What a call of \<^verbatim>\<open>queryBlockHeight\<close> comes back with: a run-time panic (the index
  expression \<^verbatim>\<open>Value[1]\<close> out of range), an error, or a height.
\<close>

datatype query_result =
    Panicked
  | Failed fetch_error
  | Height int

text \<open>
  \<^verbatim>\<open>cmd.CombinedOutput()\<close> under the 30 second context: exit status zero with the
  captured output, or any failure (non-zero exit, timeout, command not started) with it.
\<close>

datatype docker_outcome =
    DockerOk string
  | DockerErr string

datatype restart_error =
    ContainerNotSpecified
  | DockerRestartFailed string

text \<open>The errors \<^verbatim>\<open>viper.ReadInConfig\<close> can return.\<close>

datatype read_error =
    ConfigFileNotFoundError
  | UnsupportedConfigError
  | ReadFileError
  | ConfigParseError

subsection \<open>Effects\<close>

text \<open>
  One constructor per observable action of the loop: the calls that leave the process
  and each \<^verbatim>\<open>log.Printf\<close> line, in source order.
\<close>

datatype effect =
    LogSkipCooldown
  | CallQueryBlockHeight
  | LogQueryError fetch_error
  | LogQueryFailing int
  | CallRestartContainer
  | LogRestarting string
  | ExecDockerRestart string
  | LogDockerOutput string
  | LogRestartError restart_error
  | SpawnCooldown int
  | LogCurrent int int
  | LogProgressing int
  | LogStalled int int
  | LogStalledRestart int int
  | LogDecreased int int
  | LogCooldownComplete
  | LogInitialWarning fetch_error
  | LogInitial int
  | LogConfigNotFound read_error

subsection \<open>restartContainer\<close>

definition restartContainer :: "Config \<Rightarrow> docker_outcome \<Rightarrow> restart_error option \<times> effect list" where
  "restartContainer config d =
     (if ContainerName config = [] then (Some ContainerNotSpecified, [])
      else
        (case d of
           DockerErr out \<Rightarrow>
             (Some (DockerRestartFailed out),
              [LogRestarting (ContainerName config), ExecDockerRestart (ContainerName config)])
         | DockerOk out \<Rightarrow>
             (None,
              [LogRestarting (ContainerName config), ExecDockerRestart (ContainerName config),
               LogDockerOutput out])))"

subsection \<open>One iteration of the polling loop\<close>

text \<open>
  What one iteration observes: the result of \<^verbatim>\<open>queryBlockHeight(config)\<close> (line 73),
  the clock when the branch taken first reads it (\<^verbatim>\<open>time.Since\<close> at lines 77 and 103,
  \<^verbatim>\<open>time.Now\<close> at lines 99 and 124), the outcome of the docker command should it be
  run, and the clock after \<^verbatim>\<open>restartContainer\<close> has returned (lines 83 and 112).
\<close>

record tick_env =
  fetched :: query_result
  clock :: int
  docker :: docker_outcome
  clockAfterRestart :: int

text \<open>
  The restart block, which the source has twice with the same text (lines 79 to 89 and
  108 to 118): call \<^verbatim>\<open>restartContainer\<close>; on an error only log it; on success set the
  flag, restart the stall clock and start the goroutine that sleeps \<^verbatim>\<open>RestartSleep\<close>.
\<close>

definition restartBlock :: "Config \<Rightarrow> tick_env \<Rightarrow> monitor \<Rightarrow> monitor \<times> effect list" where
  "restartBlock config env s =
     (case restartContainer config (docker env) of
        (Some err, effs) \<Rightarrow> (s, CallRestartContainer # effs @ [LogRestartError err])
      | (None, effs) \<Rightarrow>
          (s\<lparr>isRestarting := True, lastProgressTime := clockAfterRestart env\<rparr>,
           CallRestartContainer # effs @ [SpawnCooldown (RestartSleep config)]))"

text \<open>
  The body of \<^verbatim>\<open>for range ticker.C\<close> (lines 68 to 125). \<open>None\<close> is the process dying of
  the panic inside \<^verbatim>\<open>queryBlockHeight\<close>.
\<close>

definition tick :: "Config \<Rightarrow> tick_env \<Rightarrow> monitor \<Rightarrow> (monitor \<times> effect list) option" where
  "tick config env s =
     (if isRestarting s then Some (s, [LogSkipCooldown])
      else
        (case fetched env of
           Panicked \<Rightarrow> None
         | Failed err \<Rightarrow>
             (if Since (clock env) (lastProgressTime s) > StallTimeout config then
                (case restartBlock config env s of
                   (s', effs) \<Rightarrow>
                     Some (s', [CallQueryBlockHeight, LogQueryError err,
                                LogQueryFailing (StallTimeout config)] @ effs))
              else Some (s, [CallQueryBlockHeight, LogQueryError err]))
         | Height blockHeight \<Rightarrow>
             (if blockHeight > lastBlockHeight s then
                Some (s\<lparr>lastBlockHeight := blockHeight, lastProgressTime := clock env\<rparr>,
                      [CallQueryBlockHeight, LogCurrent blockHeight (lastBlockHeight s),
                       LogProgressing blockHeight])
              else if blockHeight = lastBlockHeight s then
                (let stallDuration = Since (clock env) (lastProgressTime s) in
                 if stallDuration > StallTimeout config then
                   (case restartBlock config env s of
                      (s', effs) \<Rightarrow>
                        Some (s', [CallQueryBlockHeight, LogCurrent blockHeight (lastBlockHeight s),
                                   LogStalled blockHeight stallDuration,
                                   LogStalledRestart stallDuration (StallTimeout config)] @ effs))
                 else
                   Some (s, [CallQueryBlockHeight, LogCurrent blockHeight (lastBlockHeight s),
                             LogStalled blockHeight stallDuration]))
              else
                Some (s\<lparr>lastBlockHeight := blockHeight, lastProgressTime := clock env\<rparr>,
                      [CallQueryBlockHeight, LogCurrent blockHeight (lastBlockHeight s),
                       LogDecreased (lastBlockHeight s) blockHeight]))))"

subsection \<open>The loop and the cooldown goroutine\<close>

text \<open>
  The loop body runs once per ticker event. The goroutine started by a successful
  restart runs beside the loop: after its sleep it clears the flag and logs. The flag is
  read once per iteration, at its start, so the goroutine's write is an event of its own
  between two iterations.
\<close>

datatype event =
    Tick tick_env
  | CooldownDone

fun step :: "Config \<Rightarrow> event \<Rightarrow> monitor \<Rightarrow> (monitor \<times> effect list) option" where
  "step config (Tick env) s = tick config env s"
| "step config CooldownDone s = Some (s\<lparr>isRestarting := False\<rparr>, [LogCooldownComplete])"

fun run :: "Config \<Rightarrow> event list \<Rightarrow> monitor \<Rightarrow> (monitor \<times> effect list) option" where
  "run config [] s = Some (s, [])"
| "run config (e # es) s =
     (case step config e s of
        None \<Rightarrow> None
      | Some (s', effs) \<Rightarrow>
          (case run config es s' of
             None \<Rightarrow> None
           | Some (s'', effs') \<Rightarrow> Some (s'', effs @ effs')))"

text \<open>
  The declarations of lines 50 to 52 at clock reading \<open>t0\<close>, and the initial query of
  lines 58 to 65, which records a height without comparing it.
\<close>

definition initial :: "int \<Rightarrow> monitor" where
  "initial t0 = \<lparr>lastBlockHeight = - 1, lastProgressTime = t0, isRestarting = False\<rparr>"

definition initialQuery :: "query_result \<Rightarrow> int \<Rightarrow> monitor \<Rightarrow> (monitor \<times> effect list) option" where
  "initialQuery r now s =
     (case r of
        Panicked \<Rightarrow> None
      | Failed err \<Rightarrow> Some (s, [CallQueryBlockHeight, LogInitialWarning err])
      | Height blockHeight \<Rightarrow>
          Some (s\<lparr>lastBlockHeight := blockHeight, lastProgressTime := now\<rparr>,
                [CallQueryBlockHeight, LogInitial blockHeight]))"

text \<open>How often the loop called \<^verbatim>\<open>restartContainer\<close>.\<close>

definition restartAttempts :: "effect list \<Rightarrow> nat" where
  "restartAttempts effs = count_list effs CallRestartContainer"

section \<open>Fetching the block height\<close>

subsection \<open>The standard library's string functions\<close>

text \<open>
  \<^verbatim>\<open>strings.Split(s, "\n")\<close>: the pieces between line feeds, one more than there are
  line feeds; the empty string gives one empty piece.
\<close>

fun splitNewline :: "string \<Rightarrow> string list" where
  "splitNewline [] = [[]]"
| "splitNewline (c # cs) =
     (if c = CHR 0x0A then [] # splitNewline cs
      else (case splitNewline cs of
              [] \<Rightarrow> [[c]]
            | l # ls \<Rightarrow> (c # l) # ls))"

text \<open>
  \<^verbatim>\<open>unicode.IsSpace\<close> on a string of bytes. The six ASCII white-space characters are
  tab, line feed, vertical tab, form feed, carriage return and space. Beyond ASCII the
  white-space code points are U+0085, U+00A0, U+1680, U+2000 to U+200A, U+2028, U+2029,
  U+202F, U+205F and U+3000; \<open>spaceWidth\<close> is the number of bytes of the white-space
  character whose UTF-8 encoding starts the string, and 0 when none does. The lead bytes
  of these encodings are never continuation bytes, so Go's decoder, which steps over
  invalid bytes one at a time, meets each of them at the start of a character.
\<close>

definition isSpace :: "char \<Rightarrow> bool" where
  "isSpace c = (c \<in> set [CHR 0x09, CHR 0x0A, CHR 0x0B, CHR 0x0C, CHR 0x0D, CHR 0x20])"

definition spaceWidth :: "string \<Rightarrow> nat" where
  "spaceWidth s =
     (case s of
        [] \<Rightarrow> 0
      | c # cs \<Rightarrow>
          (if isSpace c then 1
           else if c = CHR 0xC2 then
             (case cs of
                d # _ \<Rightarrow> (if d = CHR 0x85 \<or> d = CHR 0xA0 then 2 else 0)
              | [] \<Rightarrow> 0)
           else if c = CHR 0xE1 then
             (if take 2 cs = [CHR 0x9A, CHR 0x80] then 3 else 0)
           else if c = CHR 0xE2 then
             (case cs of
                d # e # _ \<Rightarrow>
                  (if (d = CHR 0x80 \<and>
                       e \<in> set [CHR 0x80, CHR 0x81, CHR 0x82, CHR 0x83, CHR 0x84, CHR 0x85,
                                 CHR 0x86, CHR 0x87, CHR 0x88, CHR 0x89, CHR 0x8A,
                                 CHR 0xA8, CHR 0xA9, CHR 0xAF]) \<or>
                      (d = CHR 0x81 \<and> e = CHR 0x9F)
                   then 3 else 0)
              | _ \<Rightarrow> 0)
           else if c = CHR 0xE3 then
             (if take 2 cs = [CHR 0x80, CHR 0x80] then 3 else 0)
           else 0))"

text \<open>
  \<^verbatim>\<open>strings.Fields\<close>: the maximal runs of bytes between white-space characters. \<open>cur\<close>
  is the field being read; a white-space character ends it and is stepped over whole.
\<close>

fun fieldsFrom :: "string \<Rightarrow> string \<Rightarrow> string list" where
  "fieldsFrom cur [] = (if cur = [] then [] else [cur])"
| "fieldsFrom cur (c # cs) =
     (if spaceWidth (c # cs) > 0 then
        (if cur = [] then fieldsFrom [] (drop (spaceWidth (c # cs) - 1) cs)
         else cur # fieldsFrom [] (drop (spaceWidth (c # cs) - 1) cs))
      else fieldsFrom (cur @ [c]) cs)"

definition Fields :: "string \<Rightarrow> string list" where
  "Fields s = fieldsFrom [] s"

subsection \<open>queryBlockHeightText\<close>

text \<open>
  The outcome of \<^verbatim>\<open>http.Get\<close> on \<^verbatim>\<open>/metrics\<close>: a transport error, or a response with
  its status code and the body \<^verbatim>\<open>io.ReadAll\<close> returns (\<open>None\<close> when reading fails).
\<close>

datatype text_response =
    TextGetError
  | TextResponse nat "string option"

text \<open>
  The loop over the lines (lines 187 to 199). \<^verbatim>\<open>strconv.ParseFloat(_, 64)\<close> and the
  conversion \<^verbatim>\<open>int64(_)\<close> of a float64 are the parameters \<open>parseFloat\<close> (\<open>None\<close> when it
  returns an error) and \<open>toInt64\<close>; \<open>'f\<close> is the type float64.
\<close>

fun scanLines :: "(string \<Rightarrow> 'f option) \<Rightarrow> ('f \<Rightarrow> int) \<Rightarrow> string \<Rightarrow> string list \<Rightarrow> fetch_error + int" where
  "scanLines parseFloat toInt64 metricName [] = Inl (MetricNotFound metricName)"
| "scanLines parseFloat toInt64 metricName (line # rest) =
     (if prefix metricName line then
        (if length (Fields line) \<ge> 2 then
           (case parseFloat (Fields line ! 1) of
              None \<Rightarrow> scanLines parseFloat toInt64 metricName rest
            | Some v \<Rightarrow> Inr (toInt64 v))
         else scanLines parseFloat toInt64 metricName rest)
      else scanLines parseFloat toInt64 metricName rest)"

definition queryBlockHeightText ::
  "(string \<Rightarrow> 'f option) \<Rightarrow> ('f \<Rightarrow> int) \<Rightarrow> Config \<Rightarrow> text_response \<Rightarrow> fetch_error + int" where
  "queryBlockHeightText parseFloat toInt64 config resp =
     (case resp of
        TextGetError \<Rightarrow> Inl FetchMetricsFailed
      | TextResponse code body \<Rightarrow>
          (if code \<noteq> 200 then Inl (MetricsStatus code)
           else
             (case body of
                None \<Rightarrow> Inl ReadBodyFailed
              | Some b \<Rightarrow> scanLines parseFloat toInt64 (MetricName config) (splitNewline b))))"

subsection \<open>queryBlockHeight\<close>

text \<open>
  A decoded \<^verbatim>\<open>interface{}\<close> of \<^verbatim>\<open>encoding/json\<close>, and \<^verbatim>\<open>PrometheusResponse\<close> with its
  nested structs.
\<close>

datatype 'f json =
    JNull
  | JBool bool
  | JNumber 'f
  | JString string
  | JArray "'f json list"
  | JObject "(string \<times> 'f json) list"

record 'f result_entry =
  Metric :: "(string \<times> string) list"
  Value :: "'f json list"

record 'f response_data =
  ResultType :: string
  Result :: "'f result_entry list"

record 'f PrometheusResponse =
  Status :: string
  Data :: "'f response_data"

text \<open>
  The outcome of \<^verbatim>\<open>http.Get\<close> on the query API: a transport error, or a response with
  its status code and what the JSON decoder makes of the body (\<open>None\<close> when it fails).
\<close>

datatype 'f api_response =
    ApiGetError
  | ApiResponse nat "'f PrometheusResponse option"

definition fromText :: "fetch_error + int \<Rightarrow> query_result" where
  "fromText r = (case r of Inl err \<Rightarrow> Failed err | Inr h \<Rightarrow> Height h)"

text \<open>
  The text endpoint is requested only where the source calls \<^verbatim>\<open>queryBlockHeightText\<close>;
  \<open>text\<close> is the response it would get.
\<close>

definition queryBlockHeight ::
  "(string \<Rightarrow> 'f option) \<Rightarrow> ('f \<Rightarrow> int) \<Rightarrow> Config \<Rightarrow> 'f api_response \<Rightarrow> text_response \<Rightarrow> query_result" where
  "queryBlockHeight parseFloat toInt64 config api text =
     (case api of
        ApiGetError \<Rightarrow> fromText (queryBlockHeightText parseFloat toInt64 config text)
      | ApiResponse code decoded \<Rightarrow>
          (if code \<noteq> 200 then fromText (queryBlockHeightText parseFloat toInt64 config text)
           else
             (case decoded of
                None \<Rightarrow> fromText (queryBlockHeightText parseFloat toInt64 config text)
              | Some promResp \<Rightarrow>
                  (if Status promResp \<noteq> ''success'' \<or> length (Result (Data promResp)) = 0 then
                     fromText (queryBlockHeightText parseFloat toInt64 config text)
                   else if length (Value (Result (Data promResp) ! 0)) < 2 then Panicked
                   else
                     (case Value (Result (Data promResp) ! 0) ! 1 of
                        JString valueStr \<Rightarrow>
                          (case parseFloat valueStr of
                             None \<Rightarrow> fromText (queryBlockHeightText parseFloat toInt64 config text)
                           | Some v \<Rightarrow> Height (toInt64 v))
                      | _ \<Rightarrow> fromText (queryBlockHeightText parseFloat toInt64 config text))))))"

section \<open>Loading the configuration\<close>

text \<open>
  What the viper calls of \<^verbatim>\<open>LoadConfig\<close> return: the error of \<^verbatim>\<open>ReadInConfig\<close> if any,
  the error of \<^verbatim>\<open>Unmarshal\<close> or the struct it fills, and \<^verbatim>\<open>GetString\<close>.
\<close>

record viper =
  readInConfig :: "read_error option"
  unmarshal :: "string + Config"
  getString :: "string \<Rightarrow> string"

text \<open>
  The three blocks of lines 250 to 264; \<open>parseDuration\<close> is \<^verbatim>\<open>time.ParseDuration\<close>,
  \<open>None\<close> when it returns an error.
\<close>

definition overrideDuration :: "(string \<Rightarrow> int option) \<Rightarrow> string \<Rightarrow> int \<Rightarrow> int" where
  "overrideDuration parseDuration str d =
     (if str \<noteq> [] then (case parseDuration str of Some d' \<Rightarrow> d' | None \<Rightarrow> d) else d)"

definition LoadConfig :: "(string \<Rightarrow> int option) \<Rightarrow> viper \<Rightarrow> (string + Config) \<times> effect list" where
  "LoadConfig parseDuration v =
     (let logs = (case readInConfig v of Some err \<Rightarrow> [LogConfigNotFound err] | None \<Rightarrow> []) in
      case unmarshal v of
        Inl err \<Rightarrow> (Inl err, logs)
      | Inr config \<Rightarrow>
          (Inr (config
             \<lparr>QueryInterval :=
                overrideDuration parseDuration (getString v ''queryInterval'') (QueryInterval config),
              StallTimeout :=
                overrideDuration parseDuration (getString v ''stallTimeout'') (StallTimeout config),
              RestartSleep :=
                overrideDuration parseDuration (getString v ''restartSleep'') (RestartSleep config)\<rparr>),
           logs))"

text \<open>
  The start of \<^verbatim>\<open>main\<close> up to the loop: \<^verbatim>\<open>log.Fatalf\<close> on an error of \<^verbatim>\<open>LoadConfig\<close>,
  and \<^verbatim>\<open>time.NewTicker\<close>, which panics on a non-positive interval.
\<close>

datatype startup =
    ConfigFatal string
  | TickerPanic
  | Running Config

definition mainStartup :: "(string \<Rightarrow> int option) \<Rightarrow> viper \<Rightarrow> startup" where
  "mainStartup parseDuration v =
     (case fst (LoadConfig parseDuration v) of
        Inl err \<Rightarrow> ConfigFatal err
      | Inr config \<Rightarrow> (if QueryInterval config \<le> 0 then TickerPanic else Running config))"

section \<open>Concrete values for the examples\<close>

text \<open>\<^verbatim>\<open>time.Second\<close>, and the defaults set at lines 229 to 234.\<close>

definition second :: int where
  "second = 1000000000"

definition defaultConfig :: Config where
  "defaultConfig =
     \<lparr>IndexerURL = ''http://indexer:3030'',
      QueryInterval = 30 * second,
      StallTimeout = 300 * second,
      RestartSleep = 900 * second,
      ContainerName = ''near-lake-indexer'',
      MetricName = ''near_indexer_streaming_current_block_height''\<rparr>"

text \<open>
  \<^verbatim>\<open>strconv.ParseFloat\<close> followed by \<^verbatim>\<open>int64(_)\<close>, restricted to the unsigned decimal
  integer literals, which it reads exactly; on every other string this stand-in reports
  an error. The examples use it on strings where it agrees with the library.
\<close>

definition isDigit :: "char \<Rightarrow> bool" where
  "isDigit c = (48 \<le> (of_char c :: nat) \<and> (of_char c :: nat) \<le> 57)"

definition decimalFloat :: "string \<Rightarrow> int option" where
  "decimalFloat s =
     (if s \<noteq> [] \<and> list_all isDigit s
      then Some (foldl (\<lambda>n c. 10 * n + (int (of_char c) - 48)) 0 s)
      else None)"

text \<open>
  \<^verbatim>\<open>time.ParseDuration\<close> restricted to a decimal count of seconds, such as \<^verbatim>\<open>30s\<close>.
\<close>

definition secondsDuration :: "string \<Rightarrow> int option" where
  "secondsDuration s =
     (case rev s of
        [] \<Rightarrow> None
      | u # ds \<Rightarrow>
          (if u = CHR ''s'' then map_option (\<lambda>n. n * second) (decimalFloat (rev ds)) else None))"

text \<open>
  The defaults as \<^verbatim>\<open>viper.GetString\<close> returns them when neither the file nor the
  environment sets a key.
\<close>

definition defaultStrings :: "string \<Rightarrow> string" where
  "defaultStrings key =
     (if key = ''indexerURL'' then ''http://indexer:3030''
      else if key = ''queryInterval'' then ''30s''
      else if key = ''stallTimeout'' then ''5m''
      else if key = ''restartSleep'' then ''900s''
      else if key = ''metricName'' then ''near_indexer_streaming_current_block_height''
      else if key = ''containerName'' then ''near-lake-indexer''
      else [])"

text \<open>
  An iteration that fetches height \<open>h\<close> at clock reading \<open>t\<close>, with a docker command
  that would succeed at once.
\<close>

definition sample :: "int \<Rightarrow> int \<Rightarrow> tick_env" where
  "sample h t = \<lparr>fetched = Height h, clock = t, docker = DockerOk [], clockAfterRestart = t\<rparr>"

text \<open>The defaults with a stall timeout of 60 seconds.\<close>

definition config60 :: Config where
  "config60 = defaultConfig\<lparr>StallTimeout := 60 * second\<rparr>"

text \<open>The monitor after a query at clock reading 0 has recorded height 100.\<close>

definition at100 :: monitor where
  "at100 = \<lparr>lastBlockHeight = 100, lastProgressTime = 0, isRestarting = False\<rparr>"

section \<open>Predicates of the specification\<close>

text \<open>
  Every iteration of a run that is not skipped for the cooldown satisfies \<open>P\<close> in the
  state it starts from.
\<close>

fun eachTick ::
  "(Config \<Rightarrow> tick_env \<Rightarrow> monitor \<Rightarrow> bool) \<Rightarrow> Config \<Rightarrow> event list \<Rightarrow> monitor \<Rightarrow> bool" where
  "eachTick P config [] s = True"
| "eachTick P config (e # es) s =
     ((case e of
         Tick env \<Rightarrow> isRestarting s \<or> P config env s
       | CooldownDone \<Rightarrow> True) \<and>
      (case step config e s of
         None \<Rightarrow> True
       | Some (s', effs) \<Rightarrow> eachTick P config es s'))"

text \<open>
  The condition of claim C7 as it is worded: a fetch that succeeds returns a height
  strictly greater than the recorded one. It says nothing of a fetch that fails.
\<close>

definition successIncreases :: "Config \<Rightarrow> tick_env \<Rightarrow> monitor \<Rightarrow> bool" where
  "successIncreases config env s =
     (case fetched env of
        Height h \<Rightarrow> lastBlockHeight s < h
      | _ \<Rightarrow> True)"

text \<open>
  The condition under which the claim holds: a fetch that succeeds returns a height
  strictly greater than the recorded one, and a fetch that fails does so no more than
  the stall timeout after the last progress.
\<close>

definition increasesOrFailsInTime :: "Config \<Rightarrow> tick_env \<Rightarrow> monitor \<Rightarrow> bool" where
  "increasesOrFailsInTime config env s =
     (case fetched env of
        Height h \<Rightarrow> lastBlockHeight s < h
      | Failed err \<Rightarrow> \<not> StallTimeout config < Since (clock env) (lastProgressTime s)
      | Panicked \<Rightarrow> False)"

text \<open>
  The failures of the structured query after which the source calls the text fetch: the
  transport fails, the status is not success, the payload cannot be decoded, the
  top-level status field is not "success", the result set is empty, or the value at
  index 1 of the first result is not a string or is a string that cannot be parsed as
  a floating-point number.
\<close>

definition structuredFailure :: "(string \<Rightarrow> 'f option) \<Rightarrow> 'f api_response \<Rightarrow> bool" where
  "structuredFailure parseFloat api =
     (case api of
        ApiGetError \<Rightarrow> True
      | ApiResponse code decoded \<Rightarrow>
          code \<noteq> 200 \<or>
          (case decoded of
             None \<Rightarrow> True
           | Some promResp \<Rightarrow>
               Status promResp \<noteq> ''success'' \<or>
               Result (Data promResp) = [] \<or>
               (case Value (hd (Result (Data promResp))) of
                  _ # JString valueStr # _ \<Rightarrow> parseFloat valueStr = None
                | _ # _ # _ \<Rightarrow> True
                | _ \<Rightarrow> False)))"

text \<open>
  A decoded response with status "success" whose only result has the given value array.
\<close>

definition successWith :: "'f json list \<Rightarrow> 'f api_response" where
  "successWith v =
     ApiResponse 200
       (Some \<lparr>Status = ''success'',
              Data = \<lparr>ResultType = ''vector'', Result = [\<lparr>Metric = [], Value = v\<rparr>]\<rparr>\<rparr>)"

text \<open>
  A line the text fetch can take its value from: it starts with the metric name, has at
  least two fields, and its second field parses.
\<close>

definition usableLine :: "(string \<Rightarrow> 'f option) \<Rightarrow> string \<Rightarrow> string \<Rightarrow> bool" where
  "usableLine parseFloat metricName line =
     (prefix metricName line \<and> 2 \<le> length (Fields line) \<and> parseFloat (Fields line ! 1) \<noteq> None)"

section \<open>Facts about one iteration\<close>

lemma restartAttempts_Nil: "restartAttempts [] = 0"
  by (simp add: restartAttempts_def)

lemma restartAttempts_Cons:
  "restartAttempts (e # es) = (if e = CallRestartContainer then 1 else 0) + restartAttempts es"
  by (simp add: restartAttempts_def)

lemma restartAttempts_append:
  "restartAttempts (xs @ ys) = restartAttempts xs + restartAttempts ys"
  by (induction xs) (simp_all add: restartAttempts_Cons restartAttempts_Nil)

lemma restartContainer_no_call: "CallRestartContainer \<notin> set (snd (restartContainer config d))"
  by (simp add: restartContainer_def split: docker_outcome.splits)

lemma restartContainer_attempts: "restartAttempts (snd (restartContainer config d)) = 0"
  by (simp add: restartContainer_def restartAttempts_Cons restartAttempts_Nil
      split: docker_outcome.splits)

lemma restartBlock_failure:
  assumes "fst (restartContainer config (docker env)) = Some err"
  shows "restartBlock config env s =
           (s, CallRestartContainer # snd (restartContainer config (docker env)) @ [LogRestartError err])"
  using assms by (cases "restartContainer config (docker env)") (simp add: restartBlock_def)

lemma restartBlock_success:
  assumes "fst (restartContainer config (docker env)) = None"
  shows "restartBlock config env s =
           (s\<lparr>isRestarting := True, lastProgressTime := clockAfterRestart env\<rparr>,
            CallRestartContainer # snd (restartContainer config (docker env))
              @ [SpawnCooldown (RestartSleep config)])"
  using assms by (cases "restartContainer config (docker env)") (simp add: restartBlock_def)

lemma restartBlock_attempts: "restartAttempts (snd (restartBlock config env s)) = 1"
proof (cases "fst (restartContainer config (docker env))")
  case None
  then show ?thesis
    by (simp add: restartBlock_success restartAttempts_Cons restartAttempts_append
        restartAttempts_Nil restartContainer_attempts)
next
  case (Some err)
  then show ?thesis
    by (simp add: restartBlock_failure restartAttempts_Cons restartAttempts_append
        restartAttempts_Nil restartContainer_attempts)
qed

lemma tick_cooling: "isRestarting s \<Longrightarrow> tick config env s = Some (s, [LogSkipCooldown])"
  by (simp add: tick_def)

lemma run_cooling:
  "isRestarting s \<Longrightarrow>
   run config (map Tick envs) s = Some (s, replicate (length envs) LogSkipCooldown)"
  by (induction envs) (simp_all add: tick_cooling)

lemma tick_stalled_within:
  assumes "\<not> isRestarting s" "fetched env = Height (lastBlockHeight s)"
    and "\<not> Since (clock env) (lastProgressTime s) > StallTimeout config"
  shows "tick config env s =
           Some (s, [CallQueryBlockHeight, LogCurrent (lastBlockHeight s) (lastBlockHeight s),
                     LogStalled (lastBlockHeight s) (Since (clock env) (lastProgressTime s))])"
  using assms by (simp add: tick_def Let_def)

lemma tick_stalled_beyond:
  assumes "\<not> isRestarting s" "fetched env = Height (lastBlockHeight s)"
    and "Since (clock env) (lastProgressTime s) > StallTimeout config"
  shows "tick config env s =
           Some (fst (restartBlock config env s),
                 [CallQueryBlockHeight, LogCurrent (lastBlockHeight s) (lastBlockHeight s),
                  LogStalled (lastBlockHeight s) (Since (clock env) (lastProgressTime s)),
                  LogStalledRestart (Since (clock env) (lastProgressTime s)) (StallTimeout config)]
                 @ snd (restartBlock config env s))"
  using assms by (simp add: tick_def Let_def split: prod.splits)

lemma tick_failed_within:
  assumes "\<not> isRestarting s" "fetched env = Failed err"
    and "\<not> Since (clock env) (lastProgressTime s) > StallTimeout config"
  shows "tick config env s = Some (s, [CallQueryBlockHeight, LogQueryError err])"
  using assms by (simp add: tick_def)

lemma tick_failed_beyond:
  assumes "\<not> isRestarting s" "fetched env = Failed err"
    and "Since (clock env) (lastProgressTime s) > StallTimeout config"
  shows "tick config env s =
           Some (fst (restartBlock config env s),
                 [CallQueryBlockHeight, LogQueryError err, LogQueryFailing (StallTimeout config)]
                 @ snd (restartBlock config env s))"
  using assms by (simp add: tick_def split: prod.splits)

lemma tick_progress:
  assumes "\<not> isRestarting s" "fetched env = Height h" "h > lastBlockHeight s"
  shows "tick config env s =
           Some (s\<lparr>lastBlockHeight := h, lastProgressTime := clock env\<rparr>,
                 [CallQueryBlockHeight, LogCurrent h (lastBlockHeight s), LogProgressing h])"
  using assms by (simp add: tick_def)

lemma tick_decrease:
  assumes "\<not> isRestarting s" "fetched env = Height h" "h < lastBlockHeight s"
  shows "tick config env s =
           Some (s\<lparr>lastBlockHeight := h, lastProgressTime := clock env\<rparr>,
                 [CallQueryBlockHeight, LogCurrent h (lastBlockHeight s),
                  LogDecreased (lastBlockHeight s) h])"
  using assms by (simp add: tick_def)

lemma tick_stalled_attempts:
  assumes "\<not> isRestarting s" "fetched env = Height (lastBlockHeight s)"
  shows "\<exists>s' effs. tick config env s = Some (s', effs) \<and>
           restartAttempts effs =
             (if Since (clock env) (lastProgressTime s) > StallTimeout config then 1 else 0)"
proof (cases "Since (clock env) (lastProgressTime s) > StallTimeout config")
  case True
  then show ?thesis
    by (simp add: tick_stalled_beyond [OF assms True] restartAttempts_Cons restartAttempts_append
        restartBlock_attempts)
next
  case False
  then show ?thesis
    by (simp add: tick_stalled_within [OF assms False] restartAttempts_Cons restartAttempts_Nil)
qed

lemma run_eachTick:
  "eachTick increasesOrFailsInTime config evs s \<Longrightarrow>
   \<exists>s' effs. run config evs s = Some (s', effs) \<and> restartAttempts effs = 0"
proof (induction evs arbitrary: s)
  case Nil
  then show ?case by (simp add: restartAttempts_Nil)
next
  case (Cons e es)
  have quiet: "\<exists>s1 effs1. step config e s = Some (s1, effs1) \<and> restartAttempts effs1 = 0"
  proof (cases e)
    case CooldownDone
    then show ?thesis by (simp add: restartAttempts_Cons restartAttempts_Nil)
  next
    case (Tick env)
    show ?thesis
    proof (cases "isRestarting s")
      case True
      with Tick show ?thesis
        by (simp add: tick_cooling restartAttempts_Cons restartAttempts_Nil)
    next
      case False
      with Cons.prems Tick have ok: "increasesOrFailsInTime config env s" by simp
      show ?thesis
      proof (cases "fetched env")
        case Panicked
        with ok show ?thesis by (simp add: increasesOrFailsInTime_def)
      next
        case (Failed err)
        with ok have "\<not> Since (clock env) (lastProgressTime s) > StallTimeout config"
          by (simp add: increasesOrFailsInTime_def)
        from tick_failed_within [OF False Failed this] Tick show ?thesis
          by (simp add: restartAttempts_Cons restartAttempts_Nil)
      next
        case (Height h)
        with ok have "h > lastBlockHeight s" by (simp add: increasesOrFailsInTime_def)
        from tick_progress [OF False Height this] Tick show ?thesis
          by (simp add: restartAttempts_Cons restartAttempts_Nil)
      qed
    qed
  qed
  then obtain s1 effs1 where st: "step config e s = Some (s1, effs1)"
    and z: "restartAttempts effs1 = 0" by blast
  with Cons.prems have "eachTick increasesOrFailsInTime config es s1" by simp
  from Cons.IH [OF this] obtain s' effs where "run config es s1 = Some (s', effs)"
    and "restartAttempts effs = 0" by blast
  with st z show ?case by (simp add: restartAttempts_append)
qed

section \<open>Facts about the text fetch\<close>

lemma scanLines_find:
  "scanLines pf tr name ls =
     (case Option.bind (find (usableLine pf name) ls) (\<lambda>l. pf (Fields l ! 1)) of
        None \<Rightarrow> Inl (MetricNotFound name)
      | Some v \<Rightarrow> Inr (tr v))"
  by (induction ls) (auto simp: usableLine_def split: option.splits)

section \<open>Facts about the structured fetch\<close>

text \<open>
  After each failure for which the source has a fallback, \<^verbatim>\<open>queryBlockHeight\<close> returns
  what \<^verbatim>\<open>queryBlockHeightText\<close> returns, its error included.
\<close>

lemma structured_failures_fall_through:
  assumes "structuredFailure parseFloat api"
  shows "queryBlockHeight parseFloat toInt64 config api text =
           fromText (queryBlockHeightText parseFloat toInt64 config text)"
proof (cases api)
  case ApiGetError
  then show ?thesis by (simp add: queryBlockHeight_def)
next
  case (ApiResponse code decoded)
  show ?thesis
  proof (cases "code \<noteq> 200")
    case True
    with ApiResponse show ?thesis by (simp add: queryBlockHeight_def)
  next
    case ok: False
    show ?thesis
    proof (cases decoded)
      case None
      with ApiResponse show ?thesis by (simp add: queryBlockHeight_def)
    next
      case (Some r)
      show ?thesis
      proof (cases "Status r \<noteq> ''success'' \<or> Result (Data r) = []")
        case True
        with ApiResponse Some show ?thesis by (auto simp add: queryBlockHeight_def)
      next
        case False
        then have hd0: "Result (Data r) ! 0 = hd (Result (Data r))"
          by (simp add: hd_conv_nth)
        from False assms ApiResponse Some ok
        obtain t v vs where v: "Value (hd (Result (Data r))) = t # v # vs"
          and p: "case v of JString str \<Rightarrow> parseFloat str = None | _ \<Rightarrow> True"
          by (auto simp: structuredFailure_def split: list.splits json.splits)
        from v p hd0 False ApiResponse Some ok show ?thesis
          by (cases v) (simp_all add: queryBlockHeight_def)
      qed
    qed
  qed
qed

section \<open>The claims\<close>

text \<open>
  Claim C2. While the restarting flag is set, an iteration of the loop returns the state
  as it was and does nothing but log that it skips: it makes no query and no restart
  attempt, whatever the query and the docker command would have returned. Any number of
  iterations leaves the flag set; the only event after which it is clear is the end of
  the cooldown goroutine's sleep.
\<close>

theorem cooldown_skips_evaluation:
  assumes "isRestarting s"
  shows "tick config env s = Some (s, [LogSkipCooldown]) \<and>
         run config (map Tick envs) s = Some (s, replicate (length envs) LogSkipCooldown) \<and>
         (\<forall>e s' effs. step config e s = Some (s', effs) \<and> \<not> isRestarting s' \<longrightarrow> e = CooldownDone) \<and>
         step config CooldownDone s = Some (s\<lparr>isRestarting := False\<rparr>, [LogCooldownComplete])"
proof -
  have exit_only: "e = CooldownDone"
    if "step config e s = Some (s', effs)" "\<not> isRestarting s'" for e s' effs
  proof (cases e)
    case (Tick env')
    with that assms show ?thesis by (simp add: tick_cooling)
  next
    case CooldownDone
    then show ?thesis .
  qed
  from assms exit_only show ?thesis
    by (simp add: tick_cooling run_cooling)
qed

theorem cooldown_skips_evaluation_witness:
  "isRestarting (at100\<lparr>isRestarting := True\<rparr>) \<and>
   tick defaultConfig (sample 100 (400 * second)) (at100\<lparr>isRestarting := True\<rparr>)
     = Some (at100\<lparr>isRestarting := True\<rparr>, [LogSkipCooldown]) \<and>
   run defaultConfig (map Tick [sample 100 (400 * second), sample 100 (430 * second)])
       (at100\<lparr>isRestarting := True\<rparr>)
     = Some (at100\<lparr>isRestarting := True\<rparr>, [LogSkipCooldown, LogSkipCooldown])"
proof -
  have h: "isRestarting (at100\<lparr>isRestarting := True\<rparr>)" by simp
  note t = cooldown_skips_evaluation [OF h, of defaultConfig "sample 100 (400 * second)"
      "[sample 100 (400 * second), sample 100 (430 * second)]"]
  have two: "replicate (length [sample 100 (400 * second), sample 100 (430 * second)])
      LogSkipCooldown = [LogSkipCooldown, LogSkipCooldown]"
    by (simp add: numeral_2_eq_2)
  from t have a: "tick defaultConfig (sample 100 (400 * second)) (at100\<lparr>isRestarting := True\<rparr>)
     = Some (at100\<lparr>isRestarting := True\<rparr>, [LogSkipCooldown])"
    by (rule conjunct1)
  from t have b: "run defaultConfig (map Tick [sample 100 (400 * second), sample 100 (430 * second)])
       (at100\<lparr>isRestarting := True\<rparr>)
     = Some (at100\<lparr>isRestarting := True\<rparr>, [LogSkipCooldown, LogSkipCooldown])"
    unfolding two by blast
  from h a b show ?thesis by blast
qed

text \<open>
  Claim C5. On either restart path (the query failed, or the height is unchanged, and in
  both cases more than the stall timeout has passed since the last progress), when
  \<^verbatim>\<open>restartContainer\<close> returns an error the iteration leaves the three state
  variables as they were, logs the error and starts no cooldown; the restart was
  attempted once. The state being the same, the next iteration meets the same test and
  attempts the restart again. Only when \<^verbatim>\<open>restartContainer\<close> succeeds is
  \<^verbatim>\<open>lastProgressTime\<close> set (to the clock read after it) and the flag raised.
\<close>

theorem failed_restart_keeps_state:
  assumes "\<not> isRestarting s"
    and "fetched env = Failed err \<or> fetched env = Height (lastBlockHeight s)"
    and "Since (clock env) (lastProgressTime s) > StallTimeout config"
  shows "(case fst (restartContainer config (docker env)) of
            Some rerr \<Rightarrow>
              (\<exists>effs. tick config env s = Some (s, effs) \<and> restartAttempts effs = 1 \<and>
                 LogRestartError rerr \<in> set effs \<and> (\<forall>d. SpawnCooldown d \<notin> set effs))
          | None \<Rightarrow>
              (\<exists>effs. tick config env s =
                   Some (s\<lparr>isRestarting := True, lastProgressTime := clockAfterRestart env\<rparr>, effs) \<and>
                 restartAttempts effs = 1 \<and> SpawnCooldown (RestartSleep config) \<in> set effs))"
proof -
  obtain pre where tk: "tick config env s =
      Some (fst (restartBlock config env s), pre @ snd (restartBlock config env s))"
    and pre: "restartAttempts pre = 0" "\<forall>d. SpawnCooldown d \<notin> set pre"
  proof (cases "fetched env = Failed err")
    case True
    show ?thesis
      by (rule that [of "[CallQueryBlockHeight, LogQueryError err, LogQueryFailing (StallTimeout config)]"])
        (simp_all add: tick_failed_beyond [OF assms(1) True assms(3)]
          restartAttempts_Cons restartAttempts_Nil)
  next
    case False
    with assms(2) have st: "fetched env = Height (lastBlockHeight s)" by simp
    show ?thesis
      by (rule that [of "[CallQueryBlockHeight, LogCurrent (lastBlockHeight s) (lastBlockHeight s),
            LogStalled (lastBlockHeight s) (Since (clock env) (lastProgressTime s)),
            LogStalledRestart (Since (clock env) (lastProgressTime s)) (StallTimeout config)]"])
        (simp_all add: tick_stalled_beyond [OF assms(1) st assms(3)]
          restartAttempts_Cons restartAttempts_Nil)
  qed
  have nospawn: "\<forall>d. SpawnCooldown d \<notin> set (snd (restartContainer config (docker env)))"
    by (simp add: restartContainer_def split: docker_outcome.splits)
  show ?thesis
  proof (cases "fst (restartContainer config (docker env))")
    case None
    then show ?thesis
      using tk pre
      by (simp add: restartBlock_success restartAttempts_append restartAttempts_Cons
          restartAttempts_Nil restartContainer_attempts)
  next
    case (Some rerr)
    then show ?thesis
      using tk pre nospawn
      by (simp add: restartBlock_failure restartAttempts_append restartAttempts_Cons
          restartAttempts_Nil restartContainer_attempts)
  qed
qed

theorem failed_restart_keeps_state_witness:
  "\<not> isRestarting at100 \<and>
   Since (clock (sample 100 (330 * second))) (lastProgressTime at100) > StallTimeout (defaultConfig\<lparr>ContainerName := []\<rparr>) \<and>
   (\<exists>effs. tick (defaultConfig\<lparr>ContainerName := []\<rparr>) (sample 100 (330 * second)) at100 = Some (at100, effs) \<and>
      restartAttempts effs = 1 \<and> LogRestartError ContainerNotSpecified \<in> set effs)"
proof -
  let ?c = "defaultConfig\<lparr>ContainerName := []\<rparr>"
  let ?e = "sample 100 (330 * second)"
  have h1: "\<not> isRestarting at100" by (simp add: at100_def)
  have h2: "fetched ?e = Failed FetchMetricsFailed \<or> fetched ?e = Height (lastBlockHeight at100)"
    by (simp add: at100_def sample_def)
  have h3: "Since (clock ?e) (lastProgressTime at100) > StallTimeout ?c"
    by (simp add: at100_def sample_def defaultConfig_def Since_def second_def)
  have h4: "fst (restartContainer ?c (docker ?e)) = Some ContainerNotSpecified"
    by (simp add: restartContainer_def)
  from failed_restart_keeps_state [OF h1 h2 h3] h4
  have "\<exists>effs. tick ?c ?e at100 = Some (at100, effs) \<and> restartAttempts effs = 1 \<and>
      LogRestartError ContainerNotSpecified \<in> set effs"
    by auto
  with h1 h3 show ?thesis by blast
qed

text \<open>
  Claim C8. When the query returns a height strictly below the recorded one (and the
  monitor is not cooling down), the iteration records the lower height, sets
  \<^verbatim>\<open>lastProgressTime\<close> to the clock it reads, logs the warning that the height
  decreased, and does not call \<^verbatim>\<open>restartContainer\<close>.
\<close>

theorem decrease_absorbed_as_progress:
  assumes "\<not> isRestarting s" "fetched env = Height h" "h < lastBlockHeight s"
  shows "\<exists>effs. tick config env s =
             Some (s\<lparr>lastBlockHeight := h, lastProgressTime := clock env\<rparr>, effs) \<and>
           LogDecreased (lastBlockHeight s) h \<in> set effs \<and>
           restartAttempts effs = 0 \<and>
           CallRestartContainer \<notin> set effs"
  by (simp add: tick_decrease [OF assms] restartAttempts_Cons restartAttempts_Nil)

theorem decrease_absorbed_as_progress_witness:
  "\<not> isRestarting at100 \<and> 42 < lastBlockHeight at100 \<and>
   (\<exists>effs. tick defaultConfig (sample 42 (400 * second)) at100 =
        Some (\<lparr>lastBlockHeight = 42, lastProgressTime = 400 * second, isRestarting = False\<rparr>, effs) \<and>
      LogDecreased 100 42 \<in> set effs \<and> restartAttempts effs = 0)"
proof -
  have h1: "\<not> isRestarting at100" by (simp add: at100_def)
  have h2: "fetched (sample 42 (400 * second)) = Height 42" by (simp add: sample_def)
  have h3: "42 < lastBlockHeight at100" by (simp add: at100_def)
  from decrease_absorbed_as_progress [OF h1 h2 h3, of defaultConfig]
  have "\<exists>effs. tick defaultConfig (sample 42 (400 * second)) at100 =
        Some (\<lparr>lastBlockHeight = 42, lastProgressTime = 400 * second, isRestarting = False\<rparr>, effs) \<and>
      LogDecreased 100 42 \<in> set effs \<and> restartAttempts effs = 0"
    by (auto simp add: at100_def sample_def)
  with h1 h3 show ?thesis by blast
qed

text \<open>
  Claim C3, as amended. An iteration outside the cooldown that fetches the recorded
  height calls \<^verbatim>\<open>restartContainer\<close> exactly when the time since the last progress is
  strictly greater than the stall timeout, and not at all otherwise. In the scenario
  (height 100 recorded at clock 0, then 100 fetched every 30 seconds, stall timeout 60
  seconds) there is no restart at the second sample (30 seconds), none at the third
  sample taken at exactly 60 seconds, and one at a fourth sample at 90 seconds.
\<close>

theorem stall_threshold_is_strict:
  assumes "\<not> isRestarting s" "fetched env = Height (lastBlockHeight s)"
  shows "(\<exists>s' effs. tick config env s = Some (s', effs) \<and>
            restartAttempts effs =
              (if Since (clock env) (lastProgressTime s) > StallTimeout config then 1 else 0)) \<and>
         initialQuery (Height 100) 0 (initial 0) = Some (at100, [CallQueryBlockHeight, LogInitial 100]) \<and>
         map_option (\<lambda>r. (fst r, restartAttempts (snd r)))
           (run config60 [Tick (sample 100 (30 * second))] at100) = Some (at100, 0) \<and>
         map_option (\<lambda>r. (fst r, restartAttempts (snd r)))
           (run config60 [Tick (sample 100 (30 * second)), Tick (sample 100 (60 * second))] at100)
           = Some (at100, 0) \<and>
         map_option (\<lambda>r. (fst r, restartAttempts (snd r)))
           (run config60 [Tick (sample 100 (30 * second)), Tick (sample 100 (60 * second)),
                          Tick (sample 100 (90 * second))] at100)
           = Some (at100\<lparr>isRestarting := True, lastProgressTime := 90 * second\<rparr>, 1)"
proof -
  have a: "initialQuery (Height 100) 0 (initial 0) = Some (at100, [CallQueryBlockHeight, LogInitial 100])"
    by (simp add: initialQuery_def initial_def at100_def)
  have b: "map_option (\<lambda>r. (fst r, restartAttempts (snd r)))
           (run config60 [Tick (sample 100 (30 * second))] at100) = Some (at100, 0)"
    by (simp add: tick_def at100_def sample_def config60_def defaultConfig_def second_def Since_def
        restartAttempts_def)
  have c: "map_option (\<lambda>r. (fst r, restartAttempts (snd r)))
           (run config60 [Tick (sample 100 (30 * second)), Tick (sample 100 (60 * second))] at100)
           = Some (at100, 0)"
    by (simp add: tick_def at100_def sample_def config60_def defaultConfig_def second_def Since_def
        restartAttempts_def)
  have d: "map_option (\<lambda>r. (fst r, restartAttempts (snd r)))
           (run config60 [Tick (sample 100 (30 * second)), Tick (sample 100 (60 * second)),
                          Tick (sample 100 (90 * second))] at100)
           = Some (at100\<lparr>isRestarting := True, lastProgressTime := 90 * second\<rparr>, 1)"
    by (simp add: tick_def restartBlock_def restartContainer_def at100_def sample_def config60_def
        defaultConfig_def second_def Since_def restartAttempts_def)
  from tick_stalled_attempts [OF assms, of config] a b c d show ?thesis by blast
qed

theorem stall_threshold_is_strict_witness:
  "\<not> isRestarting at100 \<and>
   (\<exists>s' effs. tick config60 (sample 100 (60 * second)) at100 = Some (s', effs) \<and>
      restartAttempts effs = 0)"
proof -
  have h1: "\<not> isRestarting at100" by (simp add: at100_def)
  have h2: "fetched (sample 100 (60 * second)) = Height (lastBlockHeight at100)"
    by (simp add: at100_def sample_def)
  have eq: "\<not> Since (clock (sample 100 (60 * second))) (lastProgressTime at100) > StallTimeout config60"
    by (simp add: at100_def sample_def config60_def defaultConfig_def second_def Since_def)
  from stall_threshold_is_strict [OF h1 h2, of config60] eq
  have "\<exists>s' effs. tick config60 (sample 100 (60 * second)) at100 = Some (s', effs) \<and>
      restartAttempts effs = 0"
    by simp
  with h1 show ?thesis by blast
qed

text \<open>
  Claim C3 as stated fails: at the third sample the stall has lasted 60 seconds, which is
  greater than or equal to the stall timeout, and the loop has not called
  \<^verbatim>\<open>restartContainer\<close>; the state is as before.
\<close>

theorem third_sample_at_timeout_counterexample:
  "Since (60 * second) (lastProgressTime at100) \<ge> StallTimeout config60 \<and>
   map_option (\<lambda>r. (fst r, restartAttempts (snd r)))
     (run config60 [Tick (sample 100 (30 * second)), Tick (sample 100 (60 * second))] at100)
   = Some (at100, 0)"
  by (simp add: tick_def at100_def sample_def config60_def defaultConfig_def second_def Since_def
      restartAttempts_def)

text \<open>
  Claim C1, as amended. When the recorded height is fetched again more than the stall
  timeout after the last progress and \<^verbatim>\<open>restartContainer\<close> succeeds, that iteration
  attempts exactly one restart, raises the flag and sets \<^verbatim>\<open>lastProgressTime\<close> to the
  clock read after the restart. While the flag is raised no iteration attempts a restart,
  however many run. After the goroutine has cleared the flag, an iteration that fetches
  the same height attempts a restart exactly when more than the stall timeout has passed
  since the restart: the stall clock runs through the cooldown. So when
  \<^verbatim>\<open>RestartSleep\<close> is longer than \<^verbatim>\<open>StallTimeout\<close>, every iteration after the cooldown
  (which lasts at least \<^verbatim>\<open>RestartSleep\<close> from the restart) that fetches the unchanged
  height restarts again, the first one included.
\<close>

theorem stall_clock_runs_through_cooldown:
  assumes "\<not> isRestarting s"
    and "fetched env = Height (lastBlockHeight s)"
    and "Since (clock env) (lastProgressTime s) > StallTimeout config"
    and "fst (restartContainer config (docker env)) = None"
  shows "(\<exists>effs. tick config env s =
              Some (s\<lparr>isRestarting := True, lastProgressTime := clockAfterRestart env\<rparr>, effs) \<and>
            restartAttempts effs = 1) \<and>
         (\<forall>envs. run config (map Tick envs)
                    (s\<lparr>isRestarting := True, lastProgressTime := clockAfterRestart env\<rparr>) =
                  Some (s\<lparr>isRestarting := True, lastProgressTime := clockAfterRestart env\<rparr>,
                        replicate (length envs) LogSkipCooldown)) \<and>
         step config CooldownDone (s\<lparr>isRestarting := True, lastProgressTime := clockAfterRestart env\<rparr>) =
           Some (s\<lparr>isRestarting := False, lastProgressTime := clockAfterRestart env\<rparr>,
                 [LogCooldownComplete]) \<and>
         (\<forall>env'. fetched env' = Height (lastBlockHeight s) \<longrightarrow>
            (\<exists>s' effs'. tick config env'
                           (s\<lparr>isRestarting := False, lastProgressTime := clockAfterRestart env\<rparr>) =
                         Some (s', effs') \<and>
               restartAttempts effs' =
                 (if Since (clock env') (clockAfterRestart env) > StallTimeout config then 1 else 0))) \<and>
         (\<forall>env'. fetched env' = Height (lastBlockHeight s) \<and>
                 RestartSleep config > StallTimeout config \<and>
                 clock env' \<ge> clockAfterRestart env + RestartSleep config \<longrightarrow>
            (\<exists>s' effs'. tick config env'
                           (s\<lparr>isRestarting := False, lastProgressTime := clockAfterRestart env\<rparr>) =
                         Some (s', effs') \<and>
               restartAttempts effs' = 1))"
proof -
  let ?s1 = "s\<lparr>isRestarting := True, lastProgressTime := clockAfterRestart env\<rparr>"
  let ?s2 = "s\<lparr>isRestarting := False, lastProgressTime := clockAfterRestart env\<rparr>"
  have first: "\<exists>effs. tick config env s = Some (?s1, effs) \<and> restartAttempts effs = 1"
    by (simp add: tick_stalled_beyond [OF assms(1,2,3)] restartBlock_success [OF assms(4)]
        restartAttempts_Cons restartAttempts_append restartAttempts_Nil restartContainer_attempts)
  have cooling: "run config (map Tick envs) ?s1 =
      Some (?s1, replicate (length envs) LogSkipCooldown)" for envs
    by (rule run_cooling) simp
  have wake: "step config CooldownDone ?s1 = Some (?s2, [LogCooldownComplete])"
    by simp
  have after: "\<exists>s' effs'. tick config env' ?s2 = Some (s', effs') \<and>
      restartAttempts effs' =
        (if Since (clock env') (clockAfterRestart env) > StallTimeout config then 1 else 0)"
    if "fetched env' = Height (lastBlockHeight s)" for env'
    using tick_stalled_attempts [of ?s2 env' config] that by simp
  have again: "\<exists>s' effs'. tick config env' ?s2 = Some (s', effs') \<and> restartAttempts effs' = 1"
    if "fetched env' = Height (lastBlockHeight s)" "RestartSleep config > StallTimeout config"
      "clock env' \<ge> clockAfterRestart env + RestartSleep config" for env'
  proof -
    from that(2,3) have "Since (clock env') (clockAfterRestart env) > StallTimeout config"
      by (simp add: Since_def)
    with after [OF that(1)] show ?thesis by simp
  qed
  from first cooling wake after again show ?thesis by blast
qed

theorem stall_clock_runs_through_cooldown_witness:
  "\<not> isRestarting at100 \<and>
   Since (clock (sample 100 (330 * second))) (lastProgressTime at100) > StallTimeout defaultConfig \<and>
   fst (restartContainer defaultConfig (docker (sample 100 (330 * second)))) = None \<and>
   (\<exists>effs. tick defaultConfig (sample 100 (330 * second)) at100 =
        Some (at100\<lparr>isRestarting := True, lastProgressTime := 330 * second\<rparr>, effs) \<and>
      restartAttempts effs = 1)"
proof -
  let ?e = "sample 100 (330 * second)"
  have h1: "\<not> isRestarting at100" by (simp add: at100_def)
  have h2: "fetched ?e = Height (lastBlockHeight at100)" by (simp add: at100_def sample_def)
  have h3: "Since (clock ?e) (lastProgressTime at100) > StallTimeout defaultConfig"
    by (simp add: at100_def sample_def defaultConfig_def Since_def second_def)
  have h4: "fst (restartContainer defaultConfig (docker ?e)) = None"
    by (simp add: restartContainer_def sample_def defaultConfig_def)
  have c: "clockAfterRestart ?e = 330 * second" by (simp add: sample_def)
  from stall_clock_runs_through_cooldown [OF h1 h2 h3 h4]
  have "\<exists>effs. tick defaultConfig ?e at100 =
        Some (at100\<lparr>isRestarting := True, lastProgressTime := clockAfterRestart ?e\<rparr>, effs) \<and>
      restartAttempts effs = 1"
    by (rule conjunct1)
  then have "\<exists>effs. tick defaultConfig ?e at100 =
        Some (at100\<lparr>isRestarting := True, lastProgressTime := 330 * second\<rparr>, effs) \<and>
      restartAttempts effs = 1"
    unfolding c .
  with h1 h3 h4 show ?thesis by blast
qed

text \<open>
  Claim C1 as stated fails with the default durations (stall timeout 5 minutes, cooldown
  900 seconds): height 100 is recorded at clock 0 and fetched again at 330 seconds, the
  restart succeeds, two iterations are skipped, the cooldown ends, and the first
  iteration after it (1260 seconds) fetches 100 once more and restarts a second time.
\<close>

theorem restart_after_cooldown_counterexample:
  "RestartSleep defaultConfig > StallTimeout defaultConfig \<and>
   map_option (\<lambda>r. (fst r, restartAttempts (snd r)))
     (run defaultConfig
        [Tick \<lparr>fetched = Height 100, clock = 330 * second, docker = DockerOk [],
               clockAfterRestart = 331 * second\<rparr>,
         Tick (sample 100 (360 * second)),
         Tick (sample 100 (1230 * second)),
         CooldownDone,
         Tick \<lparr>fetched = Height 100, clock = 1260 * second, docker = DockerOk [],
               clockAfterRestart = 1261 * second\<rparr>]
        at100)
   = Some (\<lparr>lastBlockHeight = 100, lastProgressTime = 1261 * second, isRestarting = True\<rparr>, 2)"
  by (simp add: tick_def restartBlock_def restartContainer_def at100_def sample_def
      defaultConfig_def second_def Since_def restartAttempts_def)

text \<open>
  Claim C9 fails on the code. The configuration file is present but is not valid YAML:
  \<^verbatim>\<open>ReadInConfig\<close> returns a parse error, \<^verbatim>\<open>LoadConfig\<close> logs it as "Config file not
  found, using defaults" and goes on, \<^verbatim>\<open>Unmarshal\<close> fills the struct from the defaults,
  and \<^verbatim>\<open>main\<close> starts the loop with the default configuration instead of terminating.
\<close>

theorem malformed_file_is_not_fatal:
  "LoadConfig secondsDuration
     \<lparr>readInConfig = Some ConfigParseError, unmarshal = Inr defaultConfig,
      getString = defaultStrings\<rparr> = (Inr defaultConfig, [LogConfigNotFound ConfigParseError]) \<and>
   mainStartup secondsDuration
     \<lparr>readInConfig = Some ConfigParseError, unmarshal = Inr defaultConfig,
      getString = defaultStrings\<rparr> = Running defaultConfig"
  by (simp add: mainStartup_def LoadConfig_def overrideDuration_def defaultStrings_def
      secondsDuration_def decimalFloat_def isDigit_def defaultConfig_def second_def)

text \<open>
  Claim C4, as amended. For a text response with status 200 and a readable body, the
  fetch splits the body at line feeds and takes its value from the first line that
  starts with the metric name, has at least two white-space separated fields and whose
  second field parses as a floating-point number; lines that start with the metric name
  but lack a second field, or whose second field does not parse, are passed over. It
  fails with "metric not found" only when no line qualifies.
\<close>

theorem text_fetch_uses_first_usable_line:
  "queryBlockHeightText parseFloat toInt64 config (TextResponse 200 (Some body)) =
     (case Option.bind
             (find (usableLine parseFloat (MetricName config)) (splitNewline body))
             (\<lambda>line. parseFloat (Fields line ! 1)) of
        None \<Rightarrow> Inl (MetricNotFound (MetricName config))
      | Some v \<Rightarrow> Inr (toInt64 v))"
  by (simp add: queryBlockHeightText_def scanLines_find)

text \<open>
  An instance: the fields of the first line are separated by a no-break space (U+00A0,
  two bytes in UTF-8), and the value is taken from that line.
\<close>

theorem text_fetch_uses_first_usable_line_witness:
  "queryBlockHeightText decimalFloat (\<lambda>v. v) (defaultConfig\<lparr>MetricName := ''h''\<rparr>)
     (TextResponse 200 (Some (''h'' @ [CHR 0xC2, CHR 0xA0] @ ''5'' @ [CHR 0x0A] @ ''h 7''))) = Inr 5"
proof -
  have f: "Fields (''h'' @ [CHR 0xC2, CHR 0xA0] @ ''5'') = [''h'', ''5'']"
    by (simp add: Fields_def spaceWidth_def isSpace_def)
  have u: "usableLine decimalFloat ''h'' (''h'' @ [CHR 0xC2, CHR 0xA0] @ ''5'')"
    unfolding usableLine_def f by (simp add: decimalFloat_def isDigit_def)
  have l: "splitNewline (''h'' @ [CHR 0xC2, CHR 0xA0] @ ''5'' @ [CHR 0x0A] @ ''h 7'') =
      [''h'' @ [CHR 0xC2, CHR 0xA0] @ ''5'', ''h 7'']"
    by simp
  have v: "decimalFloat ''5'' = Some 5"
    by (simp add: decimalFloat_def isDigit_def)
  show ?thesis
    unfolding text_fetch_uses_first_usable_line l
    using u f v by simp
qed

text \<open>
  Claim C4 as stated fails: in both bodies the first line that starts with the metric
  name \<^verbatim>\<open>h\<close> has no usable second field (absent in the first body, \<^verbatim>\<open>x\<close> in the
  second), and the fetch returns 5 from the later line instead of failing.
\<close>

theorem later_matching_line_counterexample:
  "find (prefix ''h'') (splitNewline (''h'' @ [CHR 0x0A] @ ''h 5'')) = Some ''h'' \<and>
   length (Fields ''h'') < 2 \<and>
   queryBlockHeightText decimalFloat (\<lambda>v. v) (defaultConfig\<lparr>MetricName := ''h''\<rparr>)
     (TextResponse 200 (Some (''h'' @ [CHR 0x0A] @ ''h 5''))) = Inr 5 \<and>
   find (prefix ''h'') (splitNewline (''h x'' @ [CHR 0x0A] @ ''h 5'')) = Some ''h x'' \<and>
   Fields ''h x'' = [''h'', ''x''] \<and> decimalFloat ''x'' = None \<and>
   queryBlockHeightText decimalFloat (\<lambda>v. v) (defaultConfig\<lparr>MetricName := ''h''\<rparr>)
     (TextResponse 200 (Some (''h x'' @ [CHR 0x0A] @ ''h 5''))) = Inr 5"
  by (simp add: queryBlockHeightText_def Fields_def spaceWidth_def isSpace_def decimalFloat_def
      isDigit_def)

text \<open>
  Claim C6 fails on the code. The query API answers 200 with status "success" and one
  result whose value array is empty, or holds the timestamp only. The index expression
  \<^verbatim>\<open>Value[1]\<close> of line 156 is out of range and panics: \<^verbatim>\<open>queryBlockHeight\<close> does not
  fall through to the text endpoint, which would have returned height 42, and the
  iteration that made the call ends the process.
\<close>

theorem short_value_array_panics:
  "queryBlockHeight decimalFloat (\<lambda>v. v) defaultConfig (successWith [])
     (TextResponse 200 (Some ''near_indexer_streaming_current_block_height 42'')) = Panicked \<and>
   queryBlockHeight decimalFloat (\<lambda>v. v) defaultConfig (successWith [JNumber 1700000000])
     (TextResponse 200 (Some ''near_indexer_streaming_current_block_height 42'')) = Panicked \<and>
   fromText (queryBlockHeightText decimalFloat (\<lambda>v. v) defaultConfig
     (TextResponse 200 (Some ''near_indexer_streaming_current_block_height 42''))) = Height 42 \<and>
   tick defaultConfig
     \<lparr>fetched = Panicked, clock = 30 * second, docker = DockerOk [],
      clockAfterRestart = 30 * second\<rparr> at100 = None"
proof -
  have a: "queryBlockHeight decimalFloat (\<lambda>v. v) defaultConfig (successWith []) resp = Panicked"
    for resp
    by (simp add: queryBlockHeight_def successWith_def)
  have b: "queryBlockHeight decimalFloat (\<lambda>v. v) defaultConfig (successWith [JNumber 1700000000]) resp
      = Panicked" for resp
    by (simp add: queryBlockHeight_def successWith_def)
  have c: "fromText (queryBlockHeightText decimalFloat (\<lambda>v. v) defaultConfig
     (TextResponse 200 (Some ''near_indexer_streaming_current_block_height 42''))) = Height 42"
    by (simp add: fromText_def queryBlockHeightText_def defaultConfig_def Fields_def
        spaceWidth_def isSpace_def decimalFloat_def isDigit_def)
  have d: "tick defaultConfig
     \<lparr>fetched = Panicked, clock = 30 * second, docker = DockerOk [],
      clockAfterRestart = 30 * second\<rparr> at100 = None"
    by (simp add: tick_def at100_def)
  from a b c d show ?thesis by simp
qed

text \<open>
  The first of these instances on its own: the empty value array.
\<close>

theorem short_value_array_panics_witness:
  "queryBlockHeight decimalFloat (\<lambda>v. v) defaultConfig (successWith [])
     (TextResponse 200 (Some ''near_indexer_streaming_current_block_height 42'')) = Panicked"
  using short_value_array_panics by (rule conjunct1)

text \<open>
  Claim C7, as amended. In a sequence of events in which every fetch that succeeds
  returns a height strictly greater than the recorded one and every fetch that fails
  does so no more than the stall timeout after the last progress, the loop runs to the
  end without a single call of \<^verbatim>\<open>restartContainer\<close>; an iteration outside the cooldown
  that fetches a height above the recorded one only records it, sets
  \<^verbatim>\<open>lastProgressTime\<close> and logs. A fetch that fails more than the stall timeout after
  the last progress does call \<^verbatim>\<open>restartContainer\<close>.
\<close>

theorem increasing_heights_never_restart:
  assumes "eachTick increasesOrFailsInTime config evs s"
  shows "(\<exists>s' effs. run config evs s = Some (s', effs) \<and> restartAttempts effs = 0) \<and>
         (\<forall>env h. \<not> isRestarting s \<and> fetched env = Height h \<and> lastBlockHeight s < h \<longrightarrow>
            tick config env s =
              Some (s\<lparr>lastBlockHeight := h, lastProgressTime := clock env\<rparr>,
                    [CallQueryBlockHeight, LogCurrent h (lastBlockHeight s), LogProgressing h])) \<and>
         (\<forall>env err. \<not> isRestarting s \<and> fetched env = Failed err \<and>
                     StallTimeout config < Since (clock env) (lastProgressTime s) \<longrightarrow>
            (\<exists>s' effs. tick config env s = Some (s', effs) \<and> restartAttempts effs = 1))"
proof -
  have failing: "\<exists>s' effs. tick config env s = Some (s', effs) \<and> restartAttempts effs = 1"
    if "\<not> isRestarting s" "fetched env = Failed err"
      "StallTimeout config < Since (clock env) (lastProgressTime s)" for env err
    by (simp add: tick_failed_beyond [OF that] restartAttempts_Cons restartAttempts_append
        restartBlock_attempts)
  from run_eachTick [OF assms] tick_progress [of s _ _ config] failing
  show ?thesis by blast
qed

theorem increasing_heights_never_restart_witness:
  "eachTick increasesOrFailsInTime defaultConfig
     [Tick (sample 101 (30 * second)),
      Tick \<lparr>fetched = Failed FetchMetricsFailed, clock = 300 * second, docker = DockerOk [],
            clockAfterRestart = 300 * second\<rparr>,
      Tick (sample 105 (600 * second)), Tick (sample 106 (1200 * second))] at100 \<and>
   (\<exists>s' effs. run defaultConfig
       [Tick (sample 101 (30 * second)),
        Tick \<lparr>fetched = Failed FetchMetricsFailed, clock = 300 * second, docker = DockerOk [],
              clockAfterRestart = 300 * second\<rparr>,
        Tick (sample 105 (600 * second)), Tick (sample 106 (1200 * second))]
       at100 = Some (s', effs) \<and> restartAttempts effs = 0)"
proof -
  have h: "eachTick increasesOrFailsInTime defaultConfig
     [Tick (sample 101 (30 * second)),
      Tick \<lparr>fetched = Failed FetchMetricsFailed, clock = 300 * second, docker = DockerOk [],
            clockAfterRestart = 300 * second\<rparr>,
      Tick (sample 105 (600 * second)), Tick (sample 106 (1200 * second))] at100"
    by (simp add: increasesOrFailsInTime_def tick_def at100_def sample_def defaultConfig_def
        second_def Since_def)
  from increasing_heights_never_restart [OF h] h show ?thesis by blast
qed

text \<open>
  Claim C7 as stated fails: every fetch that succeeds (101, then 103 after the cooldown)
  is strictly greater than the recorded height, and the failed fetch at 360 seconds, 330
  seconds after the last progress, restarts the container.
\<close>

theorem failed_fetch_between_increases_counterexample:
  "eachTick successIncreases defaultConfig
     [Tick (sample 101 (30 * second)),
      Tick \<lparr>fetched = Failed FetchMetricsFailed, clock = 360 * second, docker = DockerOk [],
            clockAfterRestart = 361 * second\<rparr>,
      Tick (sample 102 (390 * second)),
      CooldownDone,
      Tick (sample 103 (1290 * second))] at100 \<and>
   map_option (\<lambda>r. (fst r, restartAttempts (snd r)))
     (run defaultConfig
       [Tick (sample 101 (30 * second)),
        Tick \<lparr>fetched = Failed FetchMetricsFailed, clock = 360 * second, docker = DockerOk [],
              clockAfterRestart = 361 * second\<rparr>,
        Tick (sample 102 (390 * second)),
        CooldownDone,
        Tick (sample 103 (1290 * second))] at100)
   = Some (\<lparr>lastBlockHeight = 103, lastProgressTime = 1290 * second, isRestarting = False\<rparr>, 1)"
  by (simp add: successIncreases_def tick_def restartBlock_def restartContainer_def at100_def
      sample_def defaultConfig_def second_def Since_def restartAttempts_def)

text \<open>
  Claim C10, as amended. The unknown height is the value \<open>-1\<close> of \<^verbatim>\<open>lastBlockHeight\<close>,
  with which \<^verbatim>\<open>main\<close> starts. The initial query before the loop records whatever
  height it fetches, also \<open>-1\<close> or less, as the initial height and sets
  \<^verbatim>\<open>lastProgressTime\<close>; when it fails the state stays as declared. An iteration of the
  loop that finds \<open>-1\<close> recorded compares the fetched height with it as with any other:
  only a height above \<open>-1\<close> is recorded as progress; a fetched \<open>-1\<close> takes the stalled
  branch, where the stall clock is left running (the state is unchanged within the
  timeout, and beyond it the restart block runs); a height below \<open>-1\<close> takes the decrease
  branch and is logged as a decrease, not as progress.
\<close>

theorem unknown_sentinel_is_minus_one:
  assumes "\<not> isRestarting s" "lastBlockHeight s = - 1" "fetched env = Height h"
  shows "lastBlockHeight (initial t0) = - 1 \<and>
    initialQuery (Height h0) now (initial t0) =
      Some (\<lparr>lastBlockHeight = h0, lastProgressTime = now, isRestarting = False\<rparr>,
            [CallQueryBlockHeight, LogInitial h0]) \<and>
    initialQuery (Failed err) now (initial t0) =
      Some (initial t0, [CallQueryBlockHeight, LogInitialWarning err]) \<and>
    (h > - 1 \<longrightarrow>
       tick config env s =
         Some (s\<lparr>lastBlockHeight := h, lastProgressTime := clock env\<rparr>,
               [CallQueryBlockHeight, LogCurrent h (- 1), LogProgressing h])) \<and>
    (h = - 1 \<and> \<not> Since (clock env) (lastProgressTime s) > StallTimeout config \<longrightarrow>
       tick config env s =
         Some (s, [CallQueryBlockHeight, LogCurrent (- 1) (- 1),
                   LogStalled (- 1) (Since (clock env) (lastProgressTime s))])) \<and>
    (h = - 1 \<and> Since (clock env) (lastProgressTime s) > StallTimeout config \<longrightarrow>
       tick config env s =
         Some (fst (restartBlock config env s),
               [CallQueryBlockHeight, LogCurrent (- 1) (- 1),
                LogStalled (- 1) (Since (clock env) (lastProgressTime s)),
                LogStalledRestart (Since (clock env) (lastProgressTime s)) (StallTimeout config)]
               @ snd (restartBlock config env s))) \<and>
    (h < - 1 \<longrightarrow>
       tick config env s =
         Some (s\<lparr>lastBlockHeight := h, lastProgressTime := clock env\<rparr>,
               [CallQueryBlockHeight, LogCurrent h (- 1), LogDecreased (- 1) h]))"
proof -
  have init: "lastBlockHeight (initial t0) = - 1" by (simp add: initial_def)
  have q1: "initialQuery (Height h0) now (initial t0) =
      Some (\<lparr>lastBlockHeight = h0, lastProgressTime = now, isRestarting = False\<rparr>,
            [CallQueryBlockHeight, LogInitial h0])"
    by (simp add: initialQuery_def initial_def)
  have q2: "initialQuery (Failed err) now (initial t0) =
      Some (initial t0, [CallQueryBlockHeight, LogInitialWarning err])"
    by (simp add: initialQuery_def)
  have up: "tick config env s =
         Some (s\<lparr>lastBlockHeight := h, lastProgressTime := clock env\<rparr>,
               [CallQueryBlockHeight, LogCurrent h (- 1), LogProgressing h])" if "h > - 1"
    using tick_progress [OF assms(1) assms(3), of config] that assms(2) by simp
  have down: "tick config env s =
         Some (s\<lparr>lastBlockHeight := h, lastProgressTime := clock env\<rparr>,
               [CallQueryBlockHeight, LogCurrent h (- 1), LogDecreased (- 1) h])" if "h < - 1"
    using tick_decrease [OF assms(1) assms(3), of config] that assms(2) by simp
  have same: "fetched env = Height (lastBlockHeight s)" if "h = - 1"
    using that assms by simp
  have within: "tick config env s =
         Some (s, [CallQueryBlockHeight, LogCurrent (- 1) (- 1),
                   LogStalled (- 1) (Since (clock env) (lastProgressTime s))])"
    if "h = - 1" "\<not> Since (clock env) (lastProgressTime s) > StallTimeout config"
    using tick_stalled_within [OF assms(1) same [OF that(1)] that(2)] assms(2) by simp
  have beyond: "tick config env s =
         Some (fst (restartBlock config env s),
               [CallQueryBlockHeight, LogCurrent (- 1) (- 1),
                LogStalled (- 1) (Since (clock env) (lastProgressTime s)),
                LogStalledRestart (Since (clock env) (lastProgressTime s)) (StallTimeout config)]
               @ snd (restartBlock config env s))"
    if "h = - 1" "Since (clock env) (lastProgressTime s) > StallTimeout config"
    using tick_stalled_beyond [OF assms(1) same [OF that(1)] that(2)] assms(2) by simp
  from init q1 q2 up down within beyond show ?thesis by blast
qed

theorem unknown_sentinel_is_minus_one_witness:
  "\<not> isRestarting (initial 0) \<and> lastBlockHeight (initial 0) = - 1 \<and>
   initialQuery (Failed FetchMetricsFailed) (5 * second) (initial 0) =
     Some (initial 0, [CallQueryBlockHeight, LogInitialWarning FetchMetricsFailed]) \<and>
   tick defaultConfig (sample (- 1) (30 * second)) (initial 0) =
     Some (initial 0, [CallQueryBlockHeight, LogCurrent (- 1) (- 1), LogStalled (- 1) (30 * second)]) \<and>
   tick defaultConfig (sample (- 2) (30 * second)) (initial 0) =
     Some (\<lparr>lastBlockHeight = - 2, lastProgressTime = 30 * second, isRestarting = False\<rparr>,
           [CallQueryBlockHeight, LogCurrent (- 2) (- 1), LogDecreased (- 1) (- 2)])"
proof -
  have h1: "\<not> isRestarting (initial 0)" by (simp add: initial_def)
  have h2: "lastBlockHeight (initial 0) = - 1" by (simp add: initial_def)
  have h3: "fetched (sample (- 1) (30 * second)) = Height (- 1)" by (simp add: sample_def)
  have h4: "fetched (sample (- 2) (30 * second)) = Height (- 2)" by (simp add: sample_def)
  have w: "\<not> Since (clock (sample (- 1) (30 * second))) (lastProgressTime (initial 0))
             > StallTimeout defaultConfig"
    by (simp add: sample_def initial_def defaultConfig_def Since_def second_def)
  note t1 = unknown_sentinel_is_minus_one [OF h1 h2 h3, of 0 0 "5 * second" FetchMetricsFailed
      defaultConfig]
  have q: "initialQuery (Failed FetchMetricsFailed) (5 * second) (initial 0) =
     Some (initial 0, [CallQueryBlockHeight, LogInitialWarning FetchMetricsFailed])"
    using t1 by blast
  have a: "tick defaultConfig (sample (- 1) (30 * second)) (initial 0) =
     Some (initial 0, [CallQueryBlockHeight, LogCurrent (- 1) (- 1), LogStalled (- 1) (30 * second)])"
    using t1 w by (simp add: sample_def initial_def Since_def)
  have b: "tick defaultConfig (sample (- 2) (30 * second)) (initial 0) =
     Some (\<lparr>lastBlockHeight = - 2, lastProgressTime = 30 * second, isRestarting = False\<rparr>,
           [CallQueryBlockHeight, LogCurrent (- 2) (- 1), LogDecreased (- 1) (- 2)])"
    using unknown_sentinel_is_minus_one [OF h1 h2 h4, of 0 0 0 FetchMetricsFailed defaultConfig]
    by (simp add: sample_def initial_def)
  from h1 h2 q a b show ?thesis by blast
qed

text \<open>
  Claim C10 as stated fails when the first successful fetch is the initial query: a
  fetched \<open>-1\<close> or \<open>-2\<close> is recorded and logged as the initial height and the stall clock
  is set to the time of the query; no stalled or decrease branch is taken.
\<close>

theorem initial_query_records_any_height_counterexample:
  "initialQuery (Height (- 1)) (5 * second) (initial 0) =
     Some (\<lparr>lastBlockHeight = - 1, lastProgressTime = 5 * second, isRestarting = False\<rparr>,
           [CallQueryBlockHeight, LogInitial (- 1)]) \<and>
   initialQuery (Height (- 2)) (5 * second) (initial 0) =
     Some (\<lparr>lastBlockHeight = - 2, lastProgressTime = 5 * second, isRestarting = False\<rparr>,
           [CallQueryBlockHeight, LogInitial (- 2)])"
  by (simp add: initialQuery_def initial_def)

end
